theory Spec2Isabelle
  imports Complex_Main "HOL-Library.AList"
begin

section \<open>Numbers, optional values and configuration\<close>

text \<open>
  JavaScript numbers are modelled as \<open>real\<close>: the arithmetic below is exact, rounding of
  IEEE doubles and the value NaN are outside the model. A value that may be \<open>null\<close> or
  \<open>undefined\<close> is a \<open>real option\<close>.

  The settings table is read through \<open>getSettingNum(key, default)\<close> on every call. The
  numeric settings that the engine and the risk manager only read are collected in the record
  \<open>config\<close>; the two settings they also write (\<open>bot.locked\<close>, \<open>bot.lock_until\<close>) are part
  of the state further down.
\<close>

record config =
  max_daily_loss_pct :: real
  max_position_risk_pct :: real
  max_margin_usage_pct :: real
  min_rr_ratio :: real
  default_leverage :: real
  max_leverage :: real
  trailing_stop_activate_pct :: real
  trailing_stop_distance_pct :: real
  partial_close_pct :: real
  partial_close_amount :: real
  initial_balance :: real

text \<open>The defaults that \<open>initDatabase\<close> inserts into the settings table.\<close>

definition default_config :: config where
  "default_config =
     \<lparr> max_daily_loss_pct = 10, max_position_risk_pct = 3, max_margin_usage_pct = 50,
       min_rr_ratio = 5 / 2, default_leverage = 2, max_leverage = 4,
       trailing_stop_activate_pct = 2, trailing_stop_distance_pct = 3 / 2,
       partial_close_pct = 4, partial_close_amount = 50, initial_balance = 100 \<rparr>"

text \<open>JavaScript truthiness of a possibly missing number: \<open>undefined\<close>, \<open>null\<close> and \<open>0\<close> are falsy.\<close>

definition truthy :: "real option \<Rightarrow> bool" where
  "truthy v = (case v of None \<Rightarrow> False | Some x \<Rightarrow> x \<noteq> 0)"

text \<open>\<open>a || d\<close> for a possibly missing number \<open>a\<close> and a number \<open>d\<close>.\<close>

definition or_else :: "real option \<Rightarrow> real \<Rightarrow> real" where
  "or_else a d = (case a of None \<Rightarrow> d | Some x \<Rightarrow> if x \<noteq> 0 then x else d)"

text \<open>\<open>a || null\<close>, as the callers of \<open>determineLeverage\<close> write it.\<close>

definition or_null :: "real option \<Rightarrow> real option" where
  "or_null a = (case a of None \<Rightarrow> None | Some x \<Rightarrow> if x \<noteq> 0 then Some x else None)"

section \<open>Leverage and sizing calculator\<close>

text \<open>
  The three mode labels of \<open>determineLeverage\<close>: the boosted label (GUVEN 4x), the
  high-volatility label (Normal 2x) and the label built from the default leverage, which
  carries that number.
\<close>

datatype leverage_mode = GUVEN_4x | Normal_2x_HighVol | Normal_x real

record leverage_decision =
  leverage :: real
  mode :: leverage_mode

definition determineLeverage :: "config \<Rightarrow> real \<Rightarrow> real option \<Rightarrow> leverage_decision" where
  "determineLeverage cfg score atrPct =
     (let maxLeverage = max_leverage cfg;
          defaultLeverage = default_leverage cfg
      in case atrPct of
           None \<Rightarrow> \<lparr> leverage = defaultLeverage, mode = Normal_x defaultLeverage \<rparr>
         | Some a \<Rightarrow>
             if score \<ge> 9 \<and> a < 2 then \<lparr> leverage = min 4 maxLeverage, mode = GUVEN_4x \<rparr>
             else if a > 3 then \<lparr> leverage = 2, mode = Normal_2x_HighVol \<rparr>
             else \<lparr> leverage = defaultLeverage, mode = Normal_x defaultLeverage \<rparr>)"

text \<open>The three rows of the decision table, as the source builds them.\<close>

definition boosted_tier :: "config \<Rightarrow> leverage_decision" where
  "boosted_tier cfg = \<lparr> leverage = min 4 (max_leverage cfg), mode = GUVEN_4x \<rparr>"

definition floor_tier :: leverage_decision where
  "floor_tier = \<lparr> leverage = 2, mode = Normal_2x_HighVol \<rparr>"

definition default_tier :: "config \<Rightarrow> leverage_decision" where
  "default_tier cfg = \<lparr> leverage = default_leverage cfg, mode = Normal_x (default_leverage cfg) \<rparr>"


text \<open>
  \<open>calculatePositionSize\<close>. The field \<open>stopDistance\<close> of the result is the percentage
  \<open>stopDistance * 100\<close>; its formatting with \<open>toFixed(2)\<close> and a percent sign is dropped.
  Every caller checks that \<open>entryPrice\<close> is truthy first, so the division by \<open>entryPrice\<close>
  is by a non-zero number there.
\<close>

record position_sizing =
  riskUSD :: real
  stopDistance :: real
  positionValue :: real
  margin :: real
  amount :: real
  leverage :: real

definition calculatePositionSize ::
  "config \<Rightarrow> real \<Rightarrow> real \<Rightarrow> real \<Rightarrow> real \<Rightarrow> position_sizing option" where
  "calculatePositionSize cfg balance entryPrice stopLossPrice lev =
     (let maxRiskPct = max_position_risk_pct cfg / 100;
          maxMarginPct = max_margin_usage_pct cfg / 100;
          riskUSD = balance * maxRiskPct;
          stopDistance = \<bar>entryPrice - stopLossPrice\<bar> / entryPrice
      in if stopDistance = 0 then None
         else
           let positionValue = riskUSD / stopDistance;
               margin = positionValue / lev;
               maxMargin = balance * maxMarginPct;
               actualMargin = min margin maxMargin;
               actualPositionValue = actualMargin * lev;
               amount = actualPositionValue / entryPrice
           in Some \<lparr> riskUSD = riskUSD, stopDistance = stopDistance * 100,
                     positionValue = actualPositionValue, margin = actualMargin,
                     amount = amount, leverage = lev \<rparr>)"

section \<open>Stop/target calculator\<close>

datatype direction = Long | Short

text \<open>The Bollinger fields that \<open>calculateSLTP\<close> reads.\<close>

record bollinger =
  upper :: real
  middle :: real
  lower :: real

text \<open>
  The reward:risk ratio as \<open>calculateSLTP\<close> computes it before its check:
  \<open>slDist > 0 ? tpDist / slDist : 0\<close>.
\<close>

definition rr_ratio :: "real \<Rightarrow> real \<Rightarrow> real \<Rightarrow> real" where
  "rr_ratio entryPrice stopLoss takeProfit =
     (let slDist = \<bar>entryPrice - stopLoss\<bar>;
          tpDist = \<bar>entryPrice - takeProfit\<bar>
      in if slDist > 0 then tpDist / slDist else 0)"

text \<open>
  The first half of \<open>calculateSLTP\<close>: the stop and the target from the ATR and percentage
  distances, clamped against the Bollinger band when there is one. Any direction other
  than \<open>'long'\<close> takes the short branch.
\<close>

definition initial_sltp :: "direction \<Rightarrow> real \<Rightarrow> real \<Rightarrow> bollinger option \<Rightarrow> real \<times> real" where
  "initial_sltp dir entryPrice atr boll =
     (let atrSL = atr * (3 / 2);
          atrTP = atr * (7 / 2);
          pctSL = entryPrice * (2 / 100);
          pctTP = entryPrice * (7 / 100);
          slDist = min atrSL pctSL;
          tpDist = max atrTP pctTP
      in case dir of
           Long \<Rightarrow>
             (let stopLoss = entryPrice - slDist;
                  takeProfit = entryPrice + tpDist
              in case boll of
                   None \<Rightarrow> (stopLoss, takeProfit)
                 | Some b \<Rightarrow>
                     (if lower b > stopLoss then lower b * (998 / 1000) else stopLoss,
                      if upper b < takeProfit then upper b * (1002 / 1000) else takeProfit))
         | Short \<Rightarrow>
             (let stopLoss = entryPrice + slDist;
                  takeProfit = entryPrice - tpDist
              in case boll of
                   None \<Rightarrow> (stopLoss, takeProfit)
                 | Some b \<Rightarrow>
                     (if upper b < stopLoss then upper b * (1002 / 1000) else stopLoss,
                      if lower b > takeProfit then lower b * (998 / 1000) else takeProfit)))"

text \<open>
  The result of \<open>calculateSLTP\<close>. The three display strings are kept as numbers:
  \<open>slDistance\<close> and \<open>tpDistance\<close> are percentages of the entry price, and \<open>rrRatio\<close> is the
  quotient of the two distances, which has no numeric value (\<open>None\<close>) when the stop distance
  is zero.
\<close>

record sltp =
  stopLoss :: real
  takeProfit :: real
  slDistance :: real
  tpDistance :: real
  rrRatio :: "real option"

definition calculateSLTP ::
  "config \<Rightarrow> direction \<Rightarrow> real \<Rightarrow> real \<Rightarrow> bollinger option \<Rightarrow> sltp" where
  "calculateSLTP cfg dir entryPrice atr boll =
     (let (stopLoss, takeProfit0) = initial_sltp dir entryPrice atr boll;
          slDist = \<bar>entryPrice - stopLoss\<bar>;
          rr = rr_ratio entryPrice stopLoss takeProfit0;
          minRR = min_rr_ratio cfg;
          takeProfit =
            (if rr < minRR
             then (case dir of Long \<Rightarrow> entryPrice + slDist * minRR
                             | Short \<Rightarrow> entryPrice - slDist * minRR)
             else takeProfit0)
      in \<lparr> stopLoss = stopLoss, takeProfit = takeProfit,
           slDistance = \<bar>entryPrice - stopLoss\<bar> / entryPrice * 100,
           tpDistance = \<bar>entryPrice - takeProfit\<bar> / entryPrice * 100,
           rrRatio = (if \<bar>entryPrice - stopLoss\<bar> = 0 then None
                      else Some (\<bar>entryPrice - takeProfit\<bar> / \<bar>entryPrice - stopLoss\<bar>)) \<rparr>)"

section \<open>Risk governor\<close>

text \<open>
  Wall-clock time is a number of milliseconds of local time; a local day has a fixed length
  (daylight-saving shifts are outside the model). \<open>toDateString()\<close> of two instants is equal
  exactly when they fall on the same local day, so the day is the index \<open>day_of\<close>; the instant
  that \<open>lockBot\<close> stores (tomorrow, 00:00:00.000) is \<open>next_day_start\<close>.
\<close>

definition day_ms :: nat where
  "day_ms = 86400000"

definition day_of :: "nat \<Rightarrow> nat" where
  "day_of t = t div day_ms"

definition next_day_start :: "nat \<Rightarrow> nat" where
  "next_day_start t = (day_of t + 1) * day_ms"

text \<open>
  The state of the \<open>RiskManager\<close> object together with the two settings it writes:
  \<open>bot_locked\<close> holds when the setting \<open>bot.locked\<close> is the string 1, and \<open>bot_lock_until\<close> is
  the instant stored in \<open>bot.lock_until\<close> (\<open>None\<close> for the empty string, which is falsy).
  The trade history holds \<open>True\<close> for a win. Log lines and the risk-event row that \<open>lockBot\<close>
  inserts are not part of the state.
\<close>

record risk_state =
  dailyPnL :: real
  dailyTradeCount :: nat
  tradeHistory :: "bool list"
  maxDrawdown :: real
  peakBalance :: real
  currentDay :: nat
  bot_locked :: bool
  bot_lock_until :: "nat option"

definition checkDayReset :: "nat \<Rightarrow> risk_state \<Rightarrow> risk_state" where
  "checkDayReset now st =
     (let today = day_of now
      in if today \<noteq> currentDay st
         then
           (let st1 = st\<lparr> dailyPnL := 0, dailyTradeCount := 0, currentDay := today \<rparr>
            in if bot_locked st1
               then (case bot_lock_until st1 of
                       None \<Rightarrow> st1
                     | Some lockUntil \<Rightarrow>
                         if lockUntil \<le> now
                         then st1\<lparr> bot_locked := False, bot_lock_until := None \<rparr>
                         else st1)
               else st1)
         else st)"

definition lockBot :: "nat \<Rightarrow> risk_state \<Rightarrow> risk_state" where
  "lockBot now st = st\<lparr> bot_locked := True, bot_lock_until := Some (next_day_start now) \<rparr>"

definition unlockBot :: "risk_state \<Rightarrow> risk_state" where
  "unlockBot st = st\<lparr> bot_locked := False, bot_lock_until := None, dailyPnL := 0 \<rparr>"

text \<open>The argument of \<open>canTrade\<close>; each field may be absent. The default argument is the empty object.\<close>

record trade_config =
  balance :: "real option"
  margin :: "real option"
  rrRatio :: "real option"

definition empty_trade_config :: trade_config where
  "empty_trade_config = \<lparr> balance = None, margin = None, rrRatio = None \<rparr>"

definition canTrade :: "config \<Rightarrow> nat \<Rightarrow> trade_config \<Rightarrow> risk_state \<Rightarrow> bool \<times> risk_state" where
  "canTrade cfg now tradeConfig st =
     (let st1 = checkDayReset now st
      in if bot_locked st1 then (False, st1)
         else
           let bal = or_else (balance tradeConfig) (initial_balance cfg);
               maxDailyLossPct = max_daily_loss_pct cfg / 100;
               maxDailyLoss = bal * maxDailyLossPct
           in if dailyPnL st1 < - maxDailyLoss then (False, lockBot now st1)
              else if truthy (margin tradeConfig) \<and> truthy (balance tradeConfig)
                      \<and> or_else (margin tradeConfig) 0
                          > or_else (balance tradeConfig) 0 * (max_margin_usage_pct cfg / 100)
              then (False, st1)
              else if truthy (rrRatio tradeConfig)
                      \<and> or_else (rrRatio tradeConfig) 0 < min_rr_ratio cfg
              then (False, st1)
              else (True, st1))"

definition recordPnL :: "config \<Rightarrow> nat \<Rightarrow> real \<Rightarrow> risk_state \<Rightarrow> risk_state" where
  "recordPnL cfg now pnl st =
     (let daily = dailyPnL st + pnl;
          hist0 = tradeHistory st @ [pnl \<ge> 0];
          hist = (if length hist0 > 50 then tl hist0 else hist0);
          bal = initial_balance cfg + daily;
          peak = (if bal > peakBalance st then bal else peakBalance st);
          drawdown = ((peak - bal) / peak) * 100;
          maxDD = (if drawdown > maxDrawdown st then drawdown else maxDrawdown st);
          st1 = st\<lparr> dailyPnL := daily, dailyTradeCount := dailyTradeCount st + 1,
                    tradeHistory := hist, peakBalance := peak, maxDrawdown := maxDD \<rparr>;
          maxDailyLoss = initial_balance cfg * (max_daily_loss_pct cfg / 100)
      in if daily < - maxDailyLoss then lockBot now st1 else st1)"



text \<open>The state that the constructor of \<open>RiskManager\<close> builds, with an open lock in the settings.\<close>

definition new_RiskManager :: "nat \<Rightarrow> risk_state" where
  "new_RiskManager now =
     \<lparr> dailyPnL = 0, dailyTradeCount = 0, tradeHistory = [], maxDrawdown = 0,
       peakBalance = 100, currentDay = day_of now, bot_locked = False, bot_lock_until = None \<rparr>"

text \<open>
  The breaker tripped at instant \<open>t0\<close>: the lock is set, it expires at the next day boundary
  after \<open>t0\<close>, and the day the risk manager remembers is not later than the day of \<open>t0\<close>.
\<close>

definition tripped_at :: "nat \<Rightarrow> risk_state \<Rightarrow> bool" where
  "tripped_at t0 st \<longleftrightarrow>
     bot_locked st \<and> bot_lock_until st = Some (next_day_start t0) \<and> currentDay st \<le> day_of t0"

section \<open>Position lifecycle manager\<close>

text \<open>
  An entry of the engine's \<open>positions\<close> map. The fields that the monitor and the close
  only pass on to the log and the notifier (\<open>id\<close>, \<open>symbol\<close>, \<open>leverageMode\<close>, \<open>score\<close>,
  \<open>layers\<close>, \<open>margin\<close>, \<open>positionValue\<close>, \<open>orderId\<close>, \<open>openedAt\<close>) are left out; the symbol is
  the key of the map.
\<close>

record position =
  direction :: direction
  entryPrice :: real
  currentPrice :: real
  amount :: real
  leverage :: real
  stopLoss :: real
  takeProfit :: real
  trailingStopActive :: bool
  trailingStopPrice :: "real option"
  partialClosed :: bool
  pnl :: real
  pnlPct :: real

text \<open>
  The engine: the \<open>positions\<close> map as an association list in insertion order, the engine's
  own daily P&L and reset day, and the risk manager with the lock settings.
\<close>

record engine_state =
  running :: bool
  positions :: "(string \<times> position) list"
  engineDailyPnL :: real
  dailyPnLReset :: nat
  riskManager :: risk_state

text \<open>
  What the collaborators answer. \<open>createOrder\<close> (with \<open>setLeverage\<close> and \<open>setMarginMode\<close>
  before it when opening) either places the order or throws. During a close, a database
  insert after the order may throw as well; the notifier catches its own errors.
  \<open>getBalance\<close> of the exchange manager throws or returns an object whose \<open>totalUSD\<close> may be
  missing.
\<close>

datatype order_outcome = OrderThrows | OrderPlaced

datatype close_outcome = CreateOrderThrows | InsertTradeThrows | Completes

datatype balance_reply = BalanceThrows | BalanceUSD "real option"

definition getBalance :: "config \<Rightarrow> balance_reply \<Rightarrow> real" where
  "getBalance cfg reply =
     (case reply of
        BalanceThrows \<Rightarrow> initial_balance cfg
      | BalanceUSD totalUSD \<Rightarrow> or_else totalUSD 100)"

datatype close_reason = STOP_LOSS | TAKE_PROFIT | TRAILING_STOP | MANUAL_CLOSE

definition closePosition ::
  "config \<Rightarrow> nat \<Rightarrow> string \<Rightarrow> close_reason \<Rightarrow> real \<Rightarrow> close_outcome \<Rightarrow> balance_reply
     \<Rightarrow> engine_state \<Rightarrow> engine_state" where
  "closePosition cfg now symbol reason closePrice outcome reply st =
     (case map_of (positions st) symbol of
        None \<Rightarrow> st
      | Some pos \<Rightarrow>
          (case outcome of
             CreateOrderThrows \<Rightarrow> st
           | _ \<Rightarrow>
               let finalPnL =
                     (case direction pos of
                        Long \<Rightarrow> (closePrice - entryPrice pos) * amount pos
                      | Short \<Rightarrow> (entryPrice pos - closePrice) * amount pos);
                   st1 = st\<lparr> engineDailyPnL := engineDailyPnL st + finalPnL \<rparr>
               in (case outcome of
                     InsertTradeThrows \<Rightarrow> st1
                   | _ \<Rightarrow>
                       let st2 = st1\<lparr> riskManager := recordPnL cfg now finalPnL (riskManager st1) \<rparr>;
                           bal = getBalance cfg reply;
                           maxDailyLoss = bal * (max_daily_loss_pct cfg / 100);
                           st3 = (if engineDailyPnL st2 < - maxDailyLoss
                                  then st2\<lparr> riskManager := (riskManager st2)
                                              \<lparr> bot_locked := True,
                                                bot_lock_until := Some (next_day_start now) \<rparr> \<rparr>
                                  else st2)
                       in st3\<lparr> positions := AList.delete symbol (positions st3) \<rparr>)))"

text \<open>
  One pass of the monitor over one position, in two steps. \<open>tick_position\<close> is the body of
  the loop of \<open>monitorPositions\<close> up to its calls of \<open>closePosition\<close>: it returns the mutated
  position, and whether the loop goes on to close it. \<open>monitor_position\<close> writes the position
  back and makes that call.

  In a relational comparison JavaScript reads a \<open>null\<close> trailing stop as 0.
\<close>

record tick_env =
  ticker_last :: "real option"
  partial_order :: order_outcome
  close_result :: close_outcome
  balance_result :: balance_reply

datatype tick_decision = Skip | Keep position | Close close_reason real position

definition update_pnl :: "real \<Rightarrow> position \<Rightarrow> position" where
  "update_pnl price pos =
     (case direction pos of
        Long \<Rightarrow>
          pos\<lparr> currentPrice := price,
               pnl := (price - entryPrice pos) * amount pos,
               pnlPct := ((price - entryPrice pos) / entryPrice pos) * 100 * leverage pos \<rparr>
      | Short \<Rightarrow>
          pos\<lparr> currentPrice := price,
               pnl := (entryPrice pos - price) * amount pos,
               pnlPct := ((entryPrice pos - price) / entryPrice pos) * 100 * leverage pos \<rparr>)"

definition hitSL :: "real \<Rightarrow> position \<Rightarrow> bool" where
  "hitSL price pos \<longleftrightarrow>
     (direction pos = Long \<and> price \<le> stopLoss pos) \<or> (direction pos = Short \<and> price \<ge> stopLoss pos)"

definition hitTP :: "real \<Rightarrow> position \<Rightarrow> bool" where
  "hitTP price pos \<longleftrightarrow>
     (direction pos = Long \<and> price \<ge> takeProfit pos) \<or> (direction pos = Short \<and> price \<le> takeProfit pos)"

definition trailing_num :: "position \<Rightarrow> real" where
  "trailing_num pos = (case trailingStopPrice pos of None \<Rightarrow> 0 | Some v \<Rightarrow> v)"

definition activate_trailing :: "config \<Rightarrow> real \<Rightarrow> position \<Rightarrow> position" where
  "activate_trailing cfg price pos =
     (if pnlPct pos \<ge> trailing_stop_activate_pct cfg \<and> \<not> trailingStopActive pos
      then
        (let distance = price * (trailing_stop_distance_pct cfg / 100)
         in pos\<lparr> trailingStopActive := True,
                 trailingStopPrice :=
                   Some (case direction pos of Long \<Rightarrow> price - distance | Short \<Rightarrow> price + distance) \<rparr>)
      else pos)"

definition ratchet_trailing :: "config \<Rightarrow> real \<Rightarrow> position \<Rightarrow> position" where
  "ratchet_trailing cfg price pos =
     (let distance = price * (trailing_stop_distance_pct cfg / 100)
      in case direction pos of
           Long \<Rightarrow>
             (let newTSL = price - distance
              in if newTSL > trailing_num pos then pos\<lparr> trailingStopPrice := Some newTSL \<rparr> else pos)
         | Short \<Rightarrow>
             (let newTSL = price + distance
              in if newTSL < trailing_num pos then pos\<lparr> trailingStopPrice := Some newTSL \<rparr> else pos))"

definition hitTrailing :: "real \<Rightarrow> position \<Rightarrow> bool" where
  "hitTrailing price pos \<longleftrightarrow>
     (case direction pos of
        Long \<Rightarrow> price \<le> trailing_num pos
      | Short \<Rightarrow> price \<ge> trailing_num pos)"

definition partial_close :: "config \<Rightarrow> order_outcome \<Rightarrow> position \<Rightarrow> position" where
  "partial_close cfg order pos =
     (if pnlPct pos \<ge> partial_close_pct cfg \<and> \<not> partialClosed pos
      then
        (let closeAmount = amount pos * (partial_close_amount cfg / 100)
         in case order of
              OrderThrows \<Rightarrow> pos
            | OrderPlaced \<Rightarrow>
                pos\<lparr> amount := amount pos - closeAmount,
                     partialClosed := True,
                     stopLoss := entryPrice pos \<rparr>)
      else pos)"

definition tick_position :: "config \<Rightarrow> tick_env \<Rightarrow> position \<Rightarrow> tick_decision" where
  "tick_position cfg env pos =
     (case ticker_last env of
        None \<Rightarrow> Skip
      | Some price \<Rightarrow>
          if price = 0 then Skip
          else
            let pos1 = update_pnl price pos
            in if hitSL price pos1 then Close STOP_LOSS price pos1
               else if hitTP price pos1 then Close TAKE_PROFIT price pos1
               else
                 let pos2 = activate_trailing cfg price pos1
                 in if trailingStopActive pos2
                    then
                      (let pos3 = ratchet_trailing cfg price pos2
                       in if hitTrailing price pos3 then Close TRAILING_STOP price pos3
                          else Keep (partial_close cfg (partial_order env) pos3))
                    else Keep (partial_close cfg (partial_order env) pos2))"

definition monitor_position :: "config \<Rightarrow> nat \<Rightarrow> tick_env \<Rightarrow> string \<Rightarrow> engine_state \<Rightarrow> engine_state" where
  "monitor_position cfg now env symbol st =
     (case map_of (positions st) symbol of
        None \<Rightarrow> st
      | Some pos \<Rightarrow>
          (case tick_position cfg env pos of
             Skip \<Rightarrow> st
           | Keep pos' \<Rightarrow> st\<lparr> positions := AList.update symbol pos' (positions st) \<rparr>
           | Close reason price pos' \<Rightarrow>
               closePosition cfg now symbol reason price (close_result env) (balance_result env)
                 (st\<lparr> positions := AList.update symbol pos' (positions st) \<rparr>)))"

text \<open>
  \<open>monitorPositions\<close>: one monitor tick. The environment gives the collaborators' answers
  for each symbol. Removing the entry under the cursor is the only change that the loop
  makes to the key set, so it runs over the keys present at its start.
\<close>

definition monitorPositions :: "config \<Rightarrow> nat \<Rightarrow> (string \<Rightarrow> tick_env) \<Rightarrow> engine_state \<Rightarrow> engine_state" where
  "monitorPositions cfg now env st =
     (if \<not> running st then st
      else if positions st = [] then st
      else foldl (\<lambda>s symbol. monitor_position cfg now (env symbol) symbol s) st
             (map fst (positions st)))"

text \<open>
  The position that one monitor tick leaves for a position \<open>pos\<close>, or \<open>None\<close> when the tick
  removes it from the map.
\<close>

definition position_after :: "config \<Rightarrow> tick_env \<Rightarrow> position \<Rightarrow> position option" where
  "position_after cfg env pos =
     (case tick_position cfg env pos of
        Skip \<Rightarrow> Some pos
      | Keep pos' \<Rightarrow> Some pos'
      | Close reason price pos' \<Rightarrow>
          (case close_result env of Completes \<Rightarrow> None | _ \<Rightarrow> Some pos'))"

text \<open>
  \<open>openPosition\<close>. The 1h snapshot of the analysis is \<open>None\<close> when the timeframe or its
  indicators are missing; each indicator may be missing on its own. The gate is called
  without an argument.
\<close>

record indicators =
  price :: "real option"
  atr :: "real option"
  atrPct :: "real option"
  bollinger :: "bollinger option"

record open_env =
  open_balance :: balance_reply
  open_order :: order_outcome

definition openPosition ::
  "config \<Rightarrow> nat \<Rightarrow> string \<Rightarrow> direction \<Rightarrow> real \<Rightarrow> indicators option \<Rightarrow> open_env
     \<Rightarrow> engine_state \<Rightarrow> engine_state" where
  "openPosition cfg now symbol dir sc tf1h env st =
     (let (ok, rm) = canTrade cfg now empty_trade_config (riskManager st);
          st1 = st\<lparr> riskManager := rm \<rparr>
      in if \<not> ok then st1
         else
           let bal = getBalance cfg (open_balance env);
               atrPct' = or_null (case tf1h of None \<Rightarrow> None | Some i \<Rightarrow> atrPct i);
               atr' = or_else (case tf1h of None \<Rightarrow> None | Some i \<Rightarrow> atr i) 0;
               boll = (case tf1h of None \<Rightarrow> None | Some i \<Rightarrow> bollinger i);
               entry = (case tf1h of None \<Rightarrow> None | Some i \<Rightarrow> price i)
           in if \<not> truthy entry then st1
              else
                let entryPrice = or_else entry 0;
                    lev = determineLeverage cfg sc atrPct';
                    sl = calculateSLTP cfg dir entryPrice atr' boll
                in case calculatePositionSize cfg bal entryPrice (sltp.stopLoss sl)
                          (leverage_decision.leverage lev) of
                     None \<Rightarrow> st1
                   | Some sizing \<Rightarrow>
                       if position_sizing.margin sizing > bal * (1 / 2) then st1
                       else
                         (case open_order env of
                            OrderThrows \<Rightarrow> st1
                          | OrderPlaced \<Rightarrow>
                              st1\<lparr> positions :=
                                AList.update symbol
                                  \<lparr> direction = dir, entryPrice = entryPrice,
                                    currentPrice = entryPrice,
                                    amount = position_sizing.amount sizing,
                                    leverage = leverage_decision.leverage lev,
                                    stopLoss = sltp.stopLoss sl,
                                    takeProfit = sltp.takeProfit sl,
                                    trailingStopActive = False,
                                    trailingStopPrice = None,
                                    partialClosed = False,
                                    pnl = 0, pnlPct = 0 \<rparr>
                                  (positions st1) \<rparr>))"

text \<open>The engine as its constructor builds it; \<open>start\<close> then sets \<open>running\<close>.\<close>

definition new_FuturesEngine :: "nat \<Rightarrow> engine_state" where
  "new_FuturesEngine now =
     \<lparr> running = False, positions = [], engineDailyPnL = 0, dailyPnLReset = day_of now,
       riskManager = new_RiskManager now \<rparr>"

text \<open>
  A small scenario for the monitor: one long position entered at 100 with its stop at 98
  and its target at 107, an environment that answers every symbol alike, and a ticker quote
  with the outcome of a close order (the partial-close order is placed, the balance is 100).
\<close>

definition every_symbol :: "tick_env \<Rightarrow> string \<Rightarrow> tick_env" where
  "every_symbol e symbol = e"

definition quote :: "real \<Rightarrow> close_outcome \<Rightarrow> tick_env" where
  "quote c outcome =
     \<lparr> ticker_last = Some c, partial_order = OrderPlaced, close_result = outcome,
       balance_result = BalanceUSD (Some 100) \<rparr>"

definition example_position :: position where
  "example_position =
     \<lparr> direction = Long, entryPrice = 100, currentPrice = 100, amount = 1, leverage = 2,
       stopLoss = 98, takeProfit = 107, trailingStopActive = False, trailingStopPrice = None,
       partialClosed = False, pnl = 0, pnlPct = 0 \<rparr>"

definition example_engine :: engine_state where
  "example_engine =
     \<lparr> running = True, positions = [(''BTC/USDT'', example_position)], engineDailyPnL = 0,
       dailyPnLReset = 0, riskManager = new_RiskManager 0 \<rparr>"

section \<open>Properties of the leverage decision table\<close>

text \<open>
  Claim C3. For every score and every numeric ATR percentage, \<open>determineLeverage\<close> returns the
  boosted tier (mode GUVEN 4x, leverage \<open>min(4, max_leverage)\<close>, which is 4 whenever the
  configured maximum is at least 4) if and only if the score is at least 9 and the ATR
  percentage is below 2; it returns the floor tier (2x) whenever the ATR percentage is above 3,
  whatever the score; and in every other case it returns the configured default leverage.
\<close>

theorem determineLeverage_table:
  "(determineLeverage cfg sc (Some a) = boosted_tier cfg \<longleftrightarrow> sc \<ge> 9 \<and> a < 2)
   \<and> (mode (determineLeverage cfg sc (Some a)) = GUVEN_4x \<longleftrightarrow> sc \<ge> 9 \<and> a < 2)
   \<and> (max_leverage cfg \<ge> 4 \<longrightarrow> leverage_decision.leverage (boosted_tier cfg) = 4)
   \<and> (a > 3 \<longrightarrow> determineLeverage cfg sc (Some a) = floor_tier)
   \<and> (\<not> (sc \<ge> 9 \<and> a < 2) \<and> \<not> a > 3 \<longrightarrow>
        determineLeverage cfg sc (Some a) = default_tier cfg)"
  by (simp add: determineLeverage_def boosted_tier_def floor_tier_def default_tier_def Let_def)

theorem determineLeverage_table_witness:
  "determineLeverage default_config 9 (Some 1) = boosted_tier default_config
   \<and> leverage_decision.leverage (boosted_tier default_config) = 4
   \<and> determineLeverage default_config 10 (Some (7 / 2)) = floor_tier
   \<and> determineLeverage default_config 8 (Some 1) = default_tier default_config"
  using determineLeverage_table [of default_config 9 1]
        determineLeverage_table [of default_config 10 "7 / 2"]
        determineLeverage_table [of default_config 8 1]
  by (simp add: default_config_def)

text \<open>
  Claim C10. With a missing (\<open>null\<close>) ATR percentage \<open>determineLeverage\<close> returns the configured
  default leverage for every score; and since the callers pass \<open>atrPct || null\<close>, an ATR
  percentage of exactly 0 is turned into \<open>null\<close> and also yields the default tier, even for a
  score of 9 or more.
\<close>

theorem determineLeverage_null_atr:
  "determineLeverage cfg sc None = default_tier cfg
   \<and> or_null (Some 0) = None
   \<and> determineLeverage cfg sc (or_null (Some 0)) = default_tier cfg
   \<and> determineLeverage cfg sc (or_null None) = default_tier cfg"
  by (simp add: determineLeverage_def default_tier_def or_null_def Let_def)

section \<open>Properties of the sizing and stop/target calculators\<close>

text \<open>
  Claim C4, the example as stated. Under the default settings (risk 3 percent, margin cap
  50 percent) the call with balance 100, entry 50000, stop 49000 and leverage 2 returns a
  position value of 100, a margin of 50 and an amount of 0.002: the cap on the margin lowers
  the notional and the quantity with it, so they are not 150 and 0.003.
\<close>

theorem sizing_example_capped:
  "map_option position_sizing.positionValue (calculatePositionSize default_config 100 50000 49000 2) = Some 100
   \<and> map_option position_sizing.margin (calculatePositionSize default_config 100 50000 49000 2) = Some 50
   \<and> map_option position_sizing.amount (calculatePositionSize default_config 100 50000 49000 2) = Some (2 / 1000)
   \<and> map_option position_sizing.positionValue (calculatePositionSize default_config 100 50000 49000 2) \<noteq> Some 150
   \<and> map_option position_sizing.amount (calculatePositionSize default_config 100 50000 49000 2) \<noteq> Some (3 / 1000)"
  by (simp add: calculatePositionSize_def default_config_def Let_def)

text \<open>
  Claim C4, amended. With a risk percentage of 3, balance 100, entry 50000, stop 49000 and
  leverage 2, \<open>calculatePositionSize\<close> returns a risk budget of 3 and a stop distance of 2
  percent; the uncapped notional is 150 and the uncapped margin 75; the returned margin is
  the smaller of 75 and balance times the margin cap (on a balance of 100 that cap is the
  configured percentage itself), and the returned position value and amount are recomputed
  from that margin. They are 150, 75 and 0.003 whenever the cap is at least 75 percent.
\<close>

theorem sizing_example:
  assumes "max_position_risk_pct cfg = 3"
  shows "calculatePositionSize cfg 100 50000 49000 2 =
           Some \<lparr> riskUSD = 3, stopDistance = 2,
                  positionValue = min 75 (max_margin_usage_pct cfg) * 2,
                  margin = min 75 (max_margin_usage_pct cfg),
                  amount = min 75 (max_margin_usage_pct cfg) * 2 / 50000,
                  leverage = 2 \<rparr>
         \<and> (max_margin_usage_pct cfg \<ge> 75 \<longrightarrow>
              calculatePositionSize cfg 100 50000 49000 2 =
                Some \<lparr> riskUSD = 3, stopDistance = 2, positionValue = 150, margin = 75,
                       amount = 3 / 1000, leverage = 2 \<rparr>)"
  using assms by (simp add: calculatePositionSize_def Let_def min_def)

text \<open>
  The amended example at a margin cap of 80 percent.
\<close>

theorem sizing_example_witness:
  "calculatePositionSize (default_config\<lparr> max_margin_usage_pct := 80 \<rparr>) 100 50000 49000 2 =
     Some \<lparr> riskUSD = 3, stopDistance = 2, positionValue = 150, margin = 75,
            amount = 3 / 1000, leverage = 2 \<rparr>"
  using sizing_example [of "default_config\<lparr> max_margin_usage_pct := 80 \<rparr>"]
  by (simp add: default_config_def)







section \<open>Properties of the risk governor\<close>

















lemma canTrade_trips:
  assumes "\<not> bot_locked st" "currentDay st = day_of t0"
    and "dailyPnL st < - (or_else (balance tc) (initial_balance cfg) * (max_daily_loss_pct cfg / 100))"
  shows "\<not> fst (canTrade cfg t0 tc st)" "tripped_at t0 (snd (canTrade cfg t0 tc st))"
  using assms by (simp_all add: tripped_at_def canTrade_def checkDayReset_def lockBot_def Let_def)

text \<open>
  The day the risk manager remembers is never ahead of a clock that does not run backwards:
  the constructor and every gate call set it to the current day, and \<open>recordPnL\<close> leaves it
  alone.
\<close>

lemma day_of_mono: "t \<le> t' \<Longrightarrow> day_of t \<le> day_of t'"
  by (simp add: day_of_def div_le_mono)

lemma new_RiskManager_day: "currentDay (new_RiskManager t) = day_of t"
  by (simp add: new_RiskManager_def)

lemma canTrade_day: "currentDay (snd (canTrade cfg t tc st)) = day_of t"
  by (simp add: canTrade_def checkDayReset_def lockBot_def Let_def split: option.splits)

lemma recordPnL_day: "currentDay (recordPnL cfg t loss st) = currentDay st"
  by (simp add: recordPnL_def lockBot_def Let_def)



section \<open>Properties of the position lifecycle manager\<close>

text \<open>
  The positions map after \<open>closePosition\<close>, after one pass of the loop body, and after a
  whole monitor tick. The keys of the map are distinct, as in a JavaScript \<open>Map\<close>.
\<close>

lemma closePosition_lookup:
  "map_of (positions (closePosition cfg now sy reason cp outcome reply st)) =
     (if outcome = Completes \<and> map_of (positions st) sy \<noteq> None
      then (map_of (positions st))(sy := None) else map_of (positions st))"
  by (cases outcome; cases "map_of (positions st) sy")
     (simp_all add: closePosition_def Let_def AList.delete_conv')

lemma closePosition_distinct:
  "distinct (map fst (positions st)) \<Longrightarrow>
     distinct (map fst (positions (closePosition cfg now sy reason cp outcome reply st)))"
  by (cases outcome; cases "map_of (positions st) sy")
     (simp_all add: closePosition_def Let_def AList.distinct_delete)

lemma closePosition_running:
  "running (closePosition cfg now sy reason cp outcome reply st) = running st"
  by (cases outcome; cases "map_of (positions st) sy")
     (simp_all add: closePosition_def Let_def)

lemma monitor_position_lookup:
  "map_of (positions (monitor_position cfg now env sy st)) =
     (case map_of (positions st) sy of
        None \<Rightarrow> map_of (positions st)
      | Some p \<Rightarrow> (map_of (positions st))(sy := position_after cfg env p))"
proof (cases "map_of (positions st) sy")
  case None
  then show ?thesis by (simp add: monitor_position_def)
next
  case (Some p)
  show ?thesis
  proof (cases "tick_position cfg env p")
    case Skip
    then show ?thesis using Some
      by (auto simp: monitor_position_def position_after_def fun_eq_iff)
  next
    case (Keep p')
    then show ?thesis using Some
      by (simp add: monitor_position_def position_after_def AList.update_conv')
  next
    case (Close r cp p')
    then show ?thesis using Some
      by (cases "close_result env")
         (simp_all add: monitor_position_def position_after_def closePosition_lookup
            AList.update_conv')
  qed
qed

lemma monitor_position_distinct:
  "distinct (map fst (positions st)) \<Longrightarrow>
     distinct (map fst (positions (monitor_position cfg now env sy st)))"
  by (simp add: monitor_position_def closePosition_distinct AList.distinct_update
        split: option.splits tick_decision.splits)

lemma monitor_loop_lookup:
  assumes "distinct ks"
  shows "map_of (positions (foldl (\<lambda>s symbol. monitor_position cfg now (env symbol) symbol s) st ks)) sy =
     (if sy \<in> set ks
      then (case map_of (positions st) sy of
              None \<Rightarrow> None
            | Some p \<Rightarrow> position_after cfg (env sy) p)
      else map_of (positions st) sy)"
  using assms
proof (induction ks arbitrary: st)
  case Nil
  then show ?case by simp
next
  case (Cons k ks)
  have d: "distinct ks" and nk: "k \<notin> set ks" using Cons.prems by simp_all
  show ?case
    using Cons.IH [OF d, of "monitor_position cfg now (env k) k st"] nk
    by (auto simp: monitor_position_lookup split: option.splits)
qed

lemma monitor_loop_distinct:
  "distinct (map fst (positions st)) \<Longrightarrow>
     distinct (map fst (positions (foldl (\<lambda>s symbol. monitor_position cfg now (env symbol) symbol s) st ks)))"
  by (induction ks arbitrary: st) (simp_all add: monitor_position_distinct)

lemma monitorPositions_lookup:
  assumes "distinct (map fst (positions st))"
  shows "map_of (positions (monitorPositions cfg now env st)) sy =
     (case map_of (positions st) sy of
        None \<Rightarrow> None
      | Some p \<Rightarrow> if running st then position_after cfg (env sy) p else Some p)"
proof (cases "\<not> running st \<or> positions st = []")
  case True
  then show ?thesis by (auto simp: monitorPositions_def split: option.splits)
next
  case False
  have "sy \<in> set (map fst (positions st)) \<longleftrightarrow> map_of (positions st) sy \<noteq> None"
    by (simp add: map_of_eq_None_iff)
  then show ?thesis
    using False monitor_loop_lookup [OF assms, of cfg now env st sy]
    by (auto simp: monitorPositions_def split: option.splits)
qed

lemma monitorPositions_distinct:
  "distinct (map fst (positions st)) \<Longrightarrow>
     distinct (map fst (positions (monitorPositions cfg now env st)))"
  by (simp add: monitorPositions_def monitor_loop_distinct)


lemma update_pnl_fields:
  "direction (update_pnl c p) = direction p"
  "entryPrice (update_pnl c p) = entryPrice p"
  "amount (update_pnl c p) = amount p"
  "stopLoss (update_pnl c p) = stopLoss p"
  "takeProfit (update_pnl c p) = takeProfit p"
  "trailingStopActive (update_pnl c p) = trailingStopActive p"
  "trailingStopPrice (update_pnl c p) = trailingStopPrice p"
  "partialClosed (update_pnl c p) = partialClosed p"
  by (cases "direction p"; simp add: update_pnl_def)+

lemma activate_trailing_fields:
  "direction (activate_trailing cfg c p) = direction p"
  "entryPrice (activate_trailing cfg c p) = entryPrice p"
  "amount (activate_trailing cfg c p) = amount p"
  "stopLoss (activate_trailing cfg c p) = stopLoss p"
  "partialClosed (activate_trailing cfg c p) = partialClosed p"
  "pnlPct (activate_trailing cfg c p) = pnlPct p"
  by (simp_all add: activate_trailing_def Let_def)

lemma activate_trailing_active:
  "trailingStopActive p \<Longrightarrow> activate_trailing cfg c p = p"
  by (simp add: activate_trailing_def)

lemma ratchet_trailing_fields:
  "direction (ratchet_trailing cfg c p) = direction p"
  "entryPrice (ratchet_trailing cfg c p) = entryPrice p"
  "amount (ratchet_trailing cfg c p) = amount p"
  "stopLoss (ratchet_trailing cfg c p) = stopLoss p"
  "partialClosed (ratchet_trailing cfg c p) = partialClosed p"
  "trailingStopActive (ratchet_trailing cfg c p) = trailingStopActive p"
  "pnlPct (ratchet_trailing cfg c p) = pnlPct p"
  by (cases "direction p"; simp add: ratchet_trailing_def Let_def)+

lemma partial_close_fields:
  "direction (partial_close cfg ord p) = direction p"
  "entryPrice (partial_close cfg ord p) = entryPrice p"
  "trailingStopActive (partial_close cfg ord p) = trailingStopActive p"
  "trailingStopPrice (partial_close cfg ord p) = trailingStopPrice p"
  "pnlPct (partial_close cfg ord p) = pnlPct p"
  by (cases ord; simp add: partial_close_def Let_def)+



lemma partial_close_stopLoss:
  "stopLoss (partial_close cfg ord p) = stopLoss p \<or> stopLoss (partial_close cfg ord p) = entryPrice p"
  by (cases ord; simp add: partial_close_def Let_def)

text \<open>
  What a tick can leave behind for a position: the position untouched (no usable quote),
  the position with refreshed P&L (a stop or target close that failed), the position after
  the trailing step (a trailing close that failed), or the position after the partial-close
  step.
\<close>

lemma position_after_cases:
  assumes "position_after cfg env p = Some p'"
  shows "p' = p
     \<or> (\<exists>c. ticker_last env = Some c \<and> c \<noteq> 0 \<and>
           (p' = update_pnl c p
            \<or> p' = ratchet_trailing cfg c (activate_trailing cfg c (update_pnl c p))
            \<or> p' = partial_close cfg (partial_order env)
                     (ratchet_trailing cfg c (activate_trailing cfg c (update_pnl c p)))
            \<or> (\<not> trailingStopActive (activate_trailing cfg c (update_pnl c p))
                \<and> p' = partial_close cfg (partial_order env)
                          (activate_trailing cfg c (update_pnl c p)))))"
  using assms
  by (cases "ticker_last env"; cases "close_result env")
     (auto simp: position_after_def tick_position_def Let_def split: if_splits)









lemma ratchet_trailing_monotone:
  assumes "trailingStopPrice p = Some t"
  shows "\<exists>t'. trailingStopPrice (ratchet_trailing cfg c p) = Some t'
     \<and> (direction p = Long \<longrightarrow> t \<le> t')
     \<and> (direction p = Short \<longrightarrow> t' \<le> t)
     \<and> (t' \<noteq> t \<longrightarrow>
          t' = (case direction p of
                  Long \<Rightarrow> c - c * (trailing_stop_distance_pct cfg / 100)
                | Short \<Rightarrow> c + c * (trailing_stop_distance_pct cfg / 100)))"
  using assms
  by (cases "direction p") (simp_all add: ratchet_trailing_def trailing_num_def Let_def)

lemma position_after_trailing:
  assumes "position_after cfg env p = Some p'" "trailingStopActive p" "trailingStopPrice p = Some t"
  shows "trailingStopActive p' \<and> direction p' = direction p
     \<and> (\<exists>t'. trailingStopPrice p' = Some t'
          \<and> (direction p = Long \<longrightarrow> t \<le> t')
          \<and> (direction p = Short \<longrightarrow> t' \<le> t)
          \<and> (t' \<noteq> t \<longrightarrow>
               (\<exists>c. ticker_last env = Some c
                  \<and> t' = (case direction p of
                            Long \<Rightarrow> c - c * (trailing_stop_distance_pct cfg / 100)
                          | Short \<Rightarrow> c + c * (trailing_stop_distance_pct cfg / 100)))))"
proof -
  have act: "activate_trailing cfg c (update_pnl c p) = update_pnl c p" for c
    using assms(2) by (simp add: activate_trailing_active update_pnl_fields)
  have rt: "\<exists>t'. trailingStopPrice (ratchet_trailing cfg c (update_pnl c p)) = Some t'
     \<and> (direction p = Long \<longrightarrow> t \<le> t')
     \<and> (direction p = Short \<longrightarrow> t' \<le> t)
     \<and> (t' \<noteq> t \<longrightarrow>
          t' = (case direction p of
                  Long \<Rightarrow> c - c * (trailing_stop_distance_pct cfg / 100)
                | Short \<Rightarrow> c + c * (trailing_stop_distance_pct cfg / 100)))" for c
    using ratchet_trailing_monotone [of "update_pnl c p" t cfg c] assms(3)
    by (simp add: update_pnl_fields)
  from position_after_cases [OF assms(1)]
  consider (same) "p' = p"
    | (pnl) c where "ticker_last env = Some c" "p' = update_pnl c p"
    | (trail) c where "ticker_last env = Some c" "p' = ratchet_trailing cfg c (update_pnl c p)"
    | (part) c where "ticker_last env = Some c"
        "p' = partial_close cfg (partial_order env) (ratchet_trailing cfg c (update_pnl c p))"
    using assms(2) by (auto simp: act update_pnl_fields)
  then show ?thesis
  proof cases
    case same
    then show ?thesis using assms(2,3) by simp
  next
    case pnl
    then show ?thesis using assms(2,3) by (simp add: update_pnl_fields)
  next
    case trail
    then show ?thesis
      using rt [of c] assms(2)
      by (auto simp: ratchet_trailing_fields update_pnl_fields)
  next
    case part
    then show ?thesis
      using rt [of c] assms(2)
      by (auto simp: partial_close_fields ratchet_trailing_fields update_pnl_fields)
  qed
qed

text \<open>
  Claim C8. For a position with an active trailing stop at \<open>t\<close> that is still open after a
  monitor tick: trailing is still active, the direction is unchanged, and the trailing stop
  is not below \<open>t\<close> for a long position and not above \<open>t\<close> for a short one. When it has moved,
  it is the candidate computed from the tick's quote and the configured distance.
\<close>

theorem trailing_stop_monotone:
  assumes "distinct (map fst (positions st))"
    and "map_of (positions st) sy = Some p"
    and "trailingStopActive p"
    and "trailingStopPrice p = Some t"
    and "map_of (positions (monitorPositions cfg now env st)) sy = Some p'"
  shows "trailingStopActive p' \<and> direction p' = direction p
     \<and> (\<exists>t'. trailingStopPrice p' = Some t'
          \<and> (direction p = Long \<longrightarrow> t \<le> t')
          \<and> (direction p = Short \<longrightarrow> t' \<le> t)
          \<and> (t' \<noteq> t \<longrightarrow>
               (\<exists>c. ticker_last (env sy) = Some c
                  \<and> t' = (case direction p of
                            Long \<Rightarrow> c - c * (trailing_stop_distance_pct cfg / 100)
                          | Short \<Rightarrow> c + c * (trailing_stop_distance_pct cfg / 100)))))"
proof (cases "p' = p")
  case True
  then show ?thesis using assms(3,4) by simp
next
  case False
  then have "position_after cfg (env sy) p = Some p'"
    using assms(2,5) monitorPositions_lookup [OF assms(1), of cfg now env sy]
    by (auto split: if_splits)
  then show ?thesis using assms(3,4) by (rule position_after_trailing)
qed


lemma activate_trailing_has_price:
  "(trailingStopActive p \<longrightarrow> trailingStopPrice p \<noteq> None) \<Longrightarrow>
     trailingStopActive (activate_trailing cfg c p) \<longrightarrow>
       trailingStopPrice (activate_trailing cfg c p) \<noteq> None"
  by (simp add: activate_trailing_def Let_def)

lemma ratchet_trailing_has_price:
  "trailingStopPrice p \<noteq> None \<Longrightarrow> trailingStopPrice (ratchet_trailing cfg c p) \<noteq> None"
  by (cases "direction p") (simp_all add: ratchet_trailing_def Let_def)




lemma monitorPositions_running:
  "running (monitorPositions cfg now env st) = running st"
proof -
  have "running (foldl (\<lambda>s symbol. monitor_position cfg now (env symbol) symbol s) s0 ks) = running s0"
    for s0 ks
    by (induction ks arbitrary: s0)
       (simp_all add: monitor_position_def closePosition_running
          split: option.splits tick_decision.splits)
  then show ?thesis by (simp add: monitorPositions_def)
qed



lemmas tick_defs =
  position_after_def tick_position_def update_pnl_def hitSL_def hitTP_def trailing_num_def
  activate_trailing_def ratchet_trailing_def hitTrailing_def partial_close_def
  every_symbol_def quote_def Let_def

lemma example_tick1:
  "map_of (positions (monitorPositions default_config 5000
       (every_symbol (quote (1021 / 10) Completes)) example_engine)) ''BTC/USDT'' =
     Some \<lparr> direction = Long, entryPrice = 100, currentPrice = 1021 / 10, amount = 1 / 2,
            leverage = 2, stopLoss = 100, takeProfit = 107, trailingStopActive = True,
            trailingStopPrice = Some (201137 / 2000), partialClosed = True,
            pnl = 21 / 10, pnlPct = 21 / 5 \<rparr>"
proof -
  have d: "distinct (map fst (positions example_engine))" by (simp add: example_engine_def)
  show ?thesis
    unfolding monitorPositions_lookup [OF d]
    by (simp add: example_engine_def example_position_def default_config_def tick_defs)
qed

lemma example_tick2:
  "map_of (positions (monitorPositions default_config 10000
       (every_symbol (quote 103 Completes))
       (monitorPositions default_config 5000
          (every_symbol (quote (1021 / 10) Completes)) example_engine))) ''BTC/USDT'' =
     Some \<lparr> direction = Long, entryPrice = 100, currentPrice = 103, amount = 1 / 2,
            leverage = 2, stopLoss = 100, takeProfit = 107, trailingStopActive = True,
            trailingStopPrice = Some (20291 / 200), partialClosed = True,
            pnl = 3 / 2, pnlPct = 6 \<rparr>"
proof -
  have d: "distinct (map fst (positions example_engine))" by (simp add: example_engine_def)
  have d1: "distinct (map fst (positions (monitorPositions default_config 5000
       (every_symbol (quote (1021 / 10) Completes)) example_engine)))"
    using d by (rule monitorPositions_distinct)
  have r: "running (monitorPositions default_config 5000
       (every_symbol (quote (1021 / 10) Completes)) example_engine)"
    by (simp add: monitorPositions_running example_engine_def)
  show ?thesis
    unfolding monitorPositions_lookup [OF d1] example_tick1
    using r by (simp add: default_config_def tick_defs)
qed



text \<open>
  The second tick of the scenario moves the trailing stop of the long position up from
  100.5685 to 101.455.
\<close>

theorem trailing_stop_monotone_witness:
  "map_option trailingStopPrice (map_of (positions (monitorPositions default_config 5000
       (every_symbol (quote (1021 / 10) Completes)) example_engine)) ''BTC/USDT'')
     = Some (Some (201137 / 2000))
   \<and> map_option trailingStopPrice (map_of (positions (monitorPositions default_config 10000
       (every_symbol (quote 103 Completes))
       (monitorPositions default_config 5000
          (every_symbol (quote (1021 / 10) Completes)) example_engine))) ''BTC/USDT'')
     = Some (Some (20291 / 200))
   \<and> (201137 / 2000 :: real) \<le> 20291 / 200"
proof -
  have d: "distinct (map fst (positions example_engine))" by (simp add: example_engine_def)
  have h1: "distinct (map fst (positions (monitorPositions default_config 5000
       (every_symbol (quote (1021 / 10) Completes)) example_engine)))"
    using d by (rule monitorPositions_distinct)
  have h3: "trailingStopActive \<lparr> direction = Long, entryPrice = 100, currentPrice = 1021 / 10,
            amount = 1 / 2, leverage = 2, stopLoss = 100, takeProfit = 107,
            trailingStopActive = True, trailingStopPrice = Some (201137 / 2000),
            partialClosed = True, pnl = 21 / 10, pnlPct = 21 / 5 \<rparr>" by simp
  have h4: "trailingStopPrice \<lparr> direction = Long, entryPrice = 100, currentPrice = 1021 / 10,
            amount = 1 / 2, leverage = 2, stopLoss = 100, takeProfit = 107,
            trailingStopActive = True, trailingStopPrice = Some (201137 / 2000),
            partialClosed = True, pnl = 21 / 10, pnlPct = 21 / 5 \<rparr> = Some (201137 / 2000)" by simp
  note r = trailing_stop_monotone [OF h1 example_tick1 h3 h4 example_tick2]
  show ?thesis
    using r by (simp add: example_tick1 example_tick2)
qed


text \<open>
  Claim C6, at an input where the code breaks it. The 1h snapshot has the price 100 below the
  lower Bollinger band 100.5, so the band clamp of \<open>calculateSLTP\<close> puts the stop of the long
  position at 100.299, above its entry price of 100. The quote 102.1 on the first monitor tick
  is above that stop and below the target, the P&L percentage 4.2 reaches the partial-close
  threshold, and the breakeven step moves the stop down from 100.299 to 100.
\<close>

theorem breakeven_loosens_stop:
  "map_of (positions (openPosition default_config 0 ''BTC/USDT'' Long 9
       (Some \<lparr> price = Some 100, atr = Some 2, atrPct = Some 2,
               bollinger = Some \<lparr> upper = 106, middle = 413 / 4, lower = 201 / 2 \<rparr> \<rparr>)
       \<lparr> open_balance = BalanceUSD (Some 100), open_order = OrderPlaced \<rparr>
       ((new_FuturesEngine 0)\<lparr> running := True \<rparr>))) ''BTC/USDT'' =
     Some \<lparr> direction = Long, entryPrice = 100, currentPrice = 100, amount = 1, leverage = 2,
            stopLoss = 100299 / 1000, takeProfit = 26553 / 250, trailingStopActive = False,
            trailingStopPrice = None, partialClosed = False, pnl = 0, pnlPct = 0 \<rparr>
   \<and> map_option stopLoss (map_of (positions (monitorPositions default_config 5000
       (every_symbol (quote (1021 / 10) Completes))
       (openPosition default_config 0 ''BTC/USDT'' Long 9
         (Some \<lparr> price = Some 100, atr = Some 2, atrPct = Some 2,
                 bollinger = Some \<lparr> upper = 106, middle = 413 / 4, lower = 201 / 2 \<rparr> \<rparr>)
         \<lparr> open_balance = BalanceUSD (Some 100), open_order = OrderPlaced \<rparr>
         ((new_FuturesEngine 0)\<lparr> running := True \<rparr>)))) ''BTC/USDT'') = Some 100
   \<and> (100 :: real) < 100299 / 1000"
proof -
  have op: "openPosition default_config 0 ''BTC/USDT'' Long 9
       (Some \<lparr> price = Some 100, atr = Some 2, atrPct = Some 2,
               bollinger = Some \<lparr> upper = 106, middle = 413 / 4, lower = 201 / 2 \<rparr> \<rparr>)
       \<lparr> open_balance = BalanceUSD (Some 100), open_order = OrderPlaced \<rparr>
       ((new_FuturesEngine 0)\<lparr> running := True \<rparr>) =
     \<lparr> running = True,
       positions = [(''BTC/USDT'',
          \<lparr> direction = Long, entryPrice = 100, currentPrice = 100, amount = 1, leverage = 2,
            stopLoss = 100299 / 1000, takeProfit = 26553 / 250, trailingStopActive = False,
            trailingStopPrice = None, partialClosed = False, pnl = 0, pnlPct = 0 \<rparr>)],
       engineDailyPnL = 0, dailyPnLReset = 0, riskManager = new_RiskManager 0 \<rparr>"
    by (simp add: openPosition_def canTrade_def checkDayReset_def new_FuturesEngine_def
          new_RiskManager_def empty_trade_config_def getBalance_def or_else_def or_null_def
          truthy_def determineLeverage_def calculateSLTP_def initial_sltp_def rr_ratio_def
          calculatePositionSize_def default_config_def day_of_def day_ms_def Let_def)
  have d: "distinct (map fst (positions \<lparr> running = True,
       positions = [(''BTC/USDT'',
          \<lparr> direction = Long, entryPrice = 100, currentPrice = 100, amount = 1, leverage = 2,
            stopLoss = 100299 / 1000, takeProfit = 26553 / 250, trailingStopActive = False,
            trailingStopPrice = None, partialClosed = False, pnl = 0, pnlPct = 0 \<rparr>)],
       engineDailyPnL = 0, dailyPnLReset = 0, riskManager = new_RiskManager 0 \<rparr>))"
    by simp
  show ?thesis
    unfolding op monitorPositions_lookup [OF d]
    by (simp add: default_config_def tick_defs)
qed

lemma partial_close_stopLoss_of:
  assumes "stopLoss q = stopLoss p" "entryPrice q = entryPrice p"
  shows "stopLoss (partial_close cfg ord q) = stopLoss p
     \<or> stopLoss (partial_close cfg ord q) = entryPrice p"
  using partial_close_stopLoss [of cfg ord q] assms by simp

text \<open>
  The stop is only ever replaced by the entry price. For a position whose stop is on the
  losing side of its entry, a monitor tick therefore never loosens it.
\<close>

lemma position_after_stopLoss:
  assumes "position_after cfg env p = Some p'"
  shows "(stopLoss p' = stopLoss p \<or> stopLoss p' = entryPrice p) \<and> entryPrice p' = entryPrice p
     \<and> direction p' = direction p"
proof -
  from position_after_cases [OF assms]
  consider (same) "p' = p"
    | (pnl) c where "p' = update_pnl c p"
    | (trail) c where "p' = ratchet_trailing cfg c (activate_trailing cfg c (update_pnl c p))"
    | (part1) c where "p' = partial_close cfg (partial_order env)
                        (ratchet_trailing cfg c (activate_trailing cfg c (update_pnl c p)))"
    | (part2) c where "p' = partial_close cfg (partial_order env)
                        (activate_trailing cfg c (update_pnl c p))"
    by blast
  then show ?thesis
  proof cases
    case same
    then show ?thesis by simp
  next
    case pnl
    then show ?thesis by (simp add: update_pnl_fields)
  next
    case trail
    then show ?thesis
      by (simp add: update_pnl_fields activate_trailing_fields ratchet_trailing_fields)
  next
    case part1
    have "stopLoss p' = stopLoss p \<or> stopLoss p' = entryPrice p"
      unfolding part1
      by (rule partial_close_stopLoss_of)
         (simp_all add: update_pnl_fields activate_trailing_fields ratchet_trailing_fields)
    then show ?thesis
      using part1
      by (simp add: partial_close_fields update_pnl_fields activate_trailing_fields
            ratchet_trailing_fields)
  next
    case part2
    have "stopLoss p' = stopLoss p \<or> stopLoss p' = entryPrice p"
      unfolding part2
      by (rule partial_close_stopLoss_of)
         (simp_all add: update_pnl_fields activate_trailing_fields)
    then show ?thesis
      using part2
      by (simp add: partial_close_fields update_pnl_fields activate_trailing_fields)
  qed
qed

lemma stopLoss_ratchets_behind_entry:
  assumes "distinct (map fst (positions st))"
    and "map_of (positions st) sy = Some p"
    and "map_of (positions (monitorPositions cfg now env st)) sy = Some p'"
    and "direction p = Long \<longrightarrow> stopLoss p \<le> entryPrice p"
    and "direction p = Short \<longrightarrow> entryPrice p \<le> stopLoss p"
  shows "(direction p' = Long \<longrightarrow> stopLoss p \<le> stopLoss p' \<and> stopLoss p' \<le> entryPrice p')
     \<and> (direction p' = Short \<longrightarrow> stopLoss p' \<le> stopLoss p \<and> entryPrice p' \<le> stopLoss p')"
proof (cases "p' = p")
  case True
  then show ?thesis using assms(4,5) by simp
next
  case False
  then have "position_after cfg (env sy) p = Some p'"
    using assms(2,3) monitorPositions_lookup [OF assms(1), of cfg now env sy]
    by (auto split: if_splits)
  from position_after_stopLoss [OF this] show ?thesis using assms(4,5) by auto
qed

end
